theory Spec2Isabelle
  imports Main "HOL-Library.Sublist" "HOL-Library.AList"
begin

section \<open>Python values used by the recommender\<close>

text \<open>
  Exceptions are values. Only the classes that the modelled code can meet are listed;
  every handler of the source is \<^verbatim>\<open>except Exception\<close> and catches all of them.
\<close>

datatype exn = KeyError | ValueError | TypeError | SearchException

text \<open>
  A Python \<^verbatim>\<open>str\<close> is a list of code points. A \<^typ>\<open>char\<close> is read as a code point
  below 256, where \<^verbatim>\<open>str.lower\<close> maps \<^verbatim>\<open>A-Z\<close> and the capital letters
  \<^verbatim>\<open>U+00C0-U+00D6\<close>, \<^verbatim>\<open>U+00D8-U+00DE\<close> 32 places up and leaves the rest.
\<close>

definition lower_char :: "char \<Rightarrow> char" where
  "lower_char c =
     (let n = (of_char c :: nat)
      in if (65 \<le> n \<and> n \<le> 90) \<or> (192 \<le> n \<and> n \<le> 214) \<or> (216 \<le> n \<and> n \<le> 222)
         then char_of (n + 32) else c)"

definition lower :: "string \<Rightarrow> string" where
  "lower s = map lower_char s"

text \<open>\<^verbatim>\<open>k in s\<close> on strings: \<open>k\<close> occurs in \<open>s\<close> as a contiguous substring.\<close>

fun is_in :: "string \<Rightarrow> string \<Rightarrow> bool" where
  "is_in k [] = (k = [])"
| "is_in k (c # cs) = (prefix k (c # cs) \<or> is_in k cs)"

text \<open>\<^verbatim>\<open>sep.join(xs)\<close>.\<close>

fun join :: "string \<Rightarrow> string list \<Rightarrow> string" where
  "join sep [] = []"
| "join sep [x] = x"
| "join sep (x # y # ys) = x @ sep @ join sep (y # ys)"

text \<open>
  A \<^verbatim>\<open>dict\<close> is an association list in insertion order. \<^verbatim>\<open>d[k]\<close> raises
  \<^verbatim>\<open>KeyError\<close> on a missing key; \<^verbatim>\<open>d[k] = v\<close> is \<^const>\<open>AList.update\<close>, which
  keeps the position of a key that is there.
\<close>

definition getitem :: "('k \<times> 'v) list \<Rightarrow> 'k \<Rightarrow> exn + 'v" where
  "getitem d k = (case map_of d k of None \<Rightarrow> Inl KeyError | Some v \<Rightarrow> Inr v)"

text \<open>
  \<^verbatim>\<open>max(d, key=d.get)\<close>: the keys are visited in insertion order and the running
  maximum is replaced only by a strictly larger value, so the first key with the
  largest value is returned. On an empty dictionary \<^verbatim>\<open>max\<close> raises \<^verbatim>\<open>ValueError\<close>.
\<close>

fun max_from :: "('k \<times> int) \<Rightarrow> ('k \<times> int) list \<Rightarrow> ('k \<times> int)" where
  "max_from best [] = best"
| "max_from best (kv # rest) = max_from (if snd best < snd kv then kv else best) rest"

definition max_by_get :: "('k \<times> int) list \<Rightarrow> exn + 'k" where
  "max_by_get d = (case d of [] \<Rightarrow> Inl ValueError | kv # rest \<Rightarrow> Inr (fst (max_from kv rest)))"

text \<open>\<^verbatim>\<open>any(d.values())\<close>: some value is nonzero.\<close>

definition any_values :: "('k \<times> int) list \<Rightarrow> bool" where
  "any_values d = list_ex (\<lambda>kv. snd kv \<noteq> 0) d"

text \<open>\<^verbatim>\<open>xs[:n]\<close>; a negative \<open>n\<close> counts from the end.\<close>

definition slice_to :: "'a list \<Rightarrow> int \<Rightarrow> 'a list" where
  "slice_to xs n = (if 0 \<le> n then take (nat n) xs else take (length xs - nat (- n)) xs)"

section \<open>The mood classifier\<close>

text \<open>The keyword dictionaries of \<^verbatim>\<open>detect_mood\<close> in \<^verbatim>\<open>app.py\<close> and in \<^verbatim>\<open>st.py\<close>.\<close>

definition happy_keywords :: "string list" where
  "happy_keywords =
     [''happy'', ''joyful'', ''excited'', ''cheerful'', ''good'', ''great'', ''fantastic'']"

definition sad_keywords_app :: "string list" where
  "sad_keywords_app =
     [''sad'', ''down'', ''depressed'', ''melancholic'', ''heartbroken'',
      ''I am not feeling good'', ''upset'', ''bad'', ''lonely'', ''stressed'']"

definition sad_keywords_st :: "string list" where
  "sad_keywords_st =
     [''sad'', ''down'', ''depressed'', ''melancholic'', ''heartbroken'',
      ''not feeling good'', ''upset'', ''bad'', ''lonely'', ''stressed'', ''miserable'',
      ''empty'', ''blue'', ''low'', ''emotional'', ''feeling down'']"

definition mood_keywords_app :: "(string \<times> string list) list" where
  "mood_keywords_app = [(''happy'', happy_keywords), (''sad'', sad_keywords_app)]"

definition mood_keywords_st :: "(string \<times> string list) list" where
  "mood_keywords_st = [(''happy'', happy_keywords), (''sad'', sad_keywords_st)]"

text \<open>\<^verbatim>\<open>sum(1 for keyword in keywords if keyword in user_mood)\<close>.\<close>

definition score :: "string list \<Rightarrow> string \<Rightarrow> int" where
  "score keywords user_mood = sum_list [1. keyword \<leftarrow> keywords, is_in keyword user_mood]"

definition negated :: "string \<Rightarrow> bool" where
  "negated user_mood = (is_in ''not'' user_mood \<or> is_in ''no'' user_mood)"

text \<open>
  The body shared by both files, with the keyword dictionary as a parameter: lower-case
  the text, score every mood, zero the happy score under a negation marker, and return
  the first best mood when some score is nonzero, \<^verbatim>\<open>"happy"\<close> otherwise.
\<close>

definition detect_mood_with :: "(string \<times> string list) list \<Rightarrow> string \<Rightarrow> exn + string" where
  "detect_mood_with mood_keywords text =
     (let user_mood = lower text;
          mood_scores = [(mood, score keywords user_mood). (mood, keywords) \<leftarrow> mood_keywords];
          mood_scores = (if negated user_mood then AList.update ''happy'' 0 mood_scores
                         else mood_scores)
      in if any_values mood_scores then max_by_get mood_scores else Inr ''happy'')"

definition detect_mood_app :: "string \<Rightarrow> exn + string" where
  "detect_mood_app = detect_mood_with mood_keywords_app"

definition detect_mood_st :: "string \<Rightarrow> exn + string" where
  "detect_mood_st = detect_mood_with mood_keywords_st"

section \<open>Songs and catalog tracks\<close>

text \<open>
  The \<^verbatim>\<open>Song\<close> dataclass. \<open>preview_url\<close> holds what \<^verbatim>\<open>track.get\<close> returned: a
  string, or \<open>None\<close> for Python's \<^verbatim>\<open>None\<close>.
\<close>

record Song =
  title :: string
  artist :: string
  mood :: string
  language :: string
  spotify_uri :: string
  spotify_url :: string
  preview_url :: "string option"

text \<open>
  A track record of the catalog is a dictionary; each key that \<^verbatim>\<open>_create_song\<close> reads
  may be missing (\<open>None\<close>). \<open>track_spotify_url\<close> stands for
  \<^verbatim>\<open>track["external_urls"]["spotify"]\<close>, missing when either key is. For
  \<open>track_preview_url\<close> the outer option is the presence of the key and the inner one
  tells a string from \<^verbatim>\<open>None\<close>.
\<close>

record artist_dict =
  artist_name :: "string option"

record track =
  track_name :: "string option"
  track_artists :: "artist_dict list option"
  track_uri :: "string option"
  track_spotify_url :: "string option"
  track_preview_url :: "string option option"

text \<open>\<^verbatim>\<open>[artist["name"] for artist in track["artists"]]\<close>, raising at the first artist without a name.\<close>

fun artist_names :: "artist_dict list \<Rightarrow> exn + string list" where
  "artist_names [] = Inr []"
| "artist_names (a # as) =
     (case artist_name a of
        None \<Rightarrow> Inl KeyError
      | Some nm \<Rightarrow> (case artist_names as of Inl e \<Rightarrow> Inl e | Inr nms \<Rightarrow> Inr (nm # nms)))"

text \<open>\<^verbatim>\<open>_create_song\<close>: the keyword arguments are evaluated in the order written.\<close>

definition create_song :: "track \<Rightarrow> string \<Rightarrow> string \<Rightarrow> exn + Song" where
  "create_song t md lang =
     (case track_name t of
        None \<Rightarrow> Inl KeyError
      | Some nm \<Rightarrow>
     (case track_artists t of
        None \<Rightarrow> Inl KeyError
      | Some as \<Rightarrow>
     (case artist_names as of
        Inl e \<Rightarrow> Inl e
      | Inr nms \<Rightarrow>
     (case track_uri t of
        None \<Rightarrow> Inl KeyError
      | Some u \<Rightarrow>
     (case track_spotify_url t of
        None \<Rightarrow> Inl KeyError
      | Some url \<Rightarrow>
          Inr \<lparr>title = nm, artist = join '', '' nms, mood = md, language = lang,
               spotify_uri = u, spotify_url = url,
               preview_url = (case track_preview_url t of None \<Rightarrow> Some [] | Some v \<Rightarrow> v)\<rparr>)))))"

section \<open>The configuration table\<close>

record mood_config =
  search_terms :: "string list"
  seed_genres :: "string list"

definition mood_map :: "(string \<times> (string \<times> mood_config) list) list" where
  "mood_map =
     [(''happy'',
        [(''english'',
            \<lparr>search_terms = [''happy'', ''upbeat'', ''dance'', ''party''],
             seed_genres = [''pop'', ''dance'']\<rparr>),
         (''hindi'',
            \<lparr>search_terms = [''bollywood dance'', ''hindi party'', ''bollywood pop''],
             seed_genres = [''pop'']\<rparr>)]),
      (''sad'',
        [(''english'',
            \<lparr>search_terms = [''sad'', ''melancholic'', ''emotional'', ''slow'', ''heartbroken''],
             seed_genres = [''acoustic'', ''singer-songwriter'']\<rparr>),
         (''hindi'',
            \<lparr>search_terms = [''bollywood sad'', ''hindi emotional'', ''bollywood classical'',
                             ''dard bhare gane''],
             seed_genres = [''acoustic'', ''ghazal'']\<rparr>)])]"

text \<open>\<^verbatim>\<open>self.mood_map[mood][language]\<close>.\<close>

definition mood_map_lookup :: "string \<Rightarrow> string \<Rightarrow> exn + mood_config" where
  "mood_map_lookup md lang =
     (case getitem mood_map md of Inl e \<Rightarrow> Inl e | Inr by_language \<Rightarrow> getitem by_language lang)"

text \<open>\<^verbatim>\<open>market = "IN" if language == "hindi" else "US"\<close>.\<close>

definition market_for :: "string \<Rightarrow> string" where
  "market_for lang = (if lang = ''hindi'' then ''IN'' else ''US'')"

section \<open>The outside world\<close>

text \<open>
  What \<^verbatim>\<open>self.spotify.search\<close> does on one call: it raises, or it returns a value that
  the guard \<^verbatim>\<open>results and 'tracks' in results and 'items' in results['tracks']\<close>
  rejects (\<open>Falsy\<close>: \<^verbatim>\<open>None\<close> or an empty dictionary; \<open>NoTracks\<close>; \<open>NoItems\<close>) or
  accepts (\<open>Items\<close>, with the list under \<^verbatim>\<open>results['tracks']['items']\<close>). A value
  on which the guard or the shuffle itself raises is a case of \<open>Raises\<close>: the same
  handler catches it before any song is appended.
\<close>

datatype search_result = Raises exn | Falsy | NoTracks | NoItems | Items "track list"

text \<open>The arguments of one search call (\<^verbatim>\<open>type\<close> is always \<^verbatim>\<open>'track'\<close>).\<close>

record search_call =
  call_q :: string
  call_market :: string
  call_limit :: nat
  call_offset :: nat

text \<open>
  The environment of one run, indexed by the iteration of the phrase loop:
  the answer of the catalog to the call made there, the number drawn by
  \<^verbatim>\<open>random.randint(0, 50)\<close> and the reordering done by \<^verbatim>\<open>random.shuffle\<close>. The
  catalog may answer any call in any way; the draws are left unconstrained, so the
  results below hold in particular for draws in range and for permutations.
\<close>

record env =
  spotify_search :: "nat \<Rightarrow> search_call \<Rightarrow> search_result"
  random_randint :: "nat \<Rightarrow> nat"
  random_shuffle :: "nat \<Rightarrow> track list \<Rightarrow> track list"

section \<open>The aggregator\<close>

text \<open>
  The loop over the tracks of one response. The list of songs is mutated, so it is
  returned together with the outcome: when \<^verbatim>\<open>_create_song\<close> raises, the songs
  appended before stay in the list.
\<close>

fun track_loop :: "string \<Rightarrow> string \<Rightarrow> int \<Rightarrow> track list \<Rightarrow> Song list \<Rightarrow> (exn + unit) \<times> Song list" where
  "track_loop md lang num_songs [] songs = (Inr (), songs)"
| "track_loop md lang num_songs (t # ts) songs =
     (if num_songs \<le> int (length songs) then (Inr (), songs)
      else case create_song t md lang of
             Inl e \<Rightarrow> (Inl e, songs)
           | Inr song \<Rightarrow> track_loop md lang num_songs ts (songs @ [song]))"

text \<open>
  The body of the inner \<^verbatim>\<open>try\<close> for one search term, at iteration \<open>i\<close>. The state is
  the list of songs and the log of the search calls made so far.
\<close>

definition try_search :: "env \<Rightarrow> string \<Rightarrow> string \<Rightarrow> int \<Rightarrow> nat \<Rightarrow> string \<Rightarrow>
    Song list \<times> search_call list \<Rightarrow> (exn + unit) \<times> (Song list \<times> search_call list)" where
  "try_search world md lang num_songs i search_term st =
     (let call = \<lparr>call_q = search_term, call_market = market_for lang, call_limit = 10,
                  call_offset = random_randint world i\<rparr>;
          calls = snd st @ [call]
      in case spotify_search world i call of
           Raises e \<Rightarrow> (Inl e, (fst st, calls))
         | Falsy \<Rightarrow> (Inr (), (fst st, calls))
         | NoTracks \<Rightarrow> (Inr (), (fst st, calls))
         | NoItems \<Rightarrow> (Inr (), (fst st, calls))
         | Items tracks \<Rightarrow>
             (case track_loop md lang num_songs (random_shuffle world i tracks) (fst st) of
                (r, songs) \<Rightarrow> (r, (songs, calls))))"

text \<open>
  The loop over the search terms: an exception of the body is caught and the loop
  continues with the next term; otherwise the loop stops once enough songs are there.
\<close>

fun phrase_loop :: "env \<Rightarrow> string \<Rightarrow> string \<Rightarrow> int \<Rightarrow> nat \<Rightarrow> string list \<Rightarrow>
    Song list \<times> search_call list \<Rightarrow> Song list \<times> search_call list" where
  "phrase_loop world md lang num_songs i [] st = st"
| "phrase_loop world md lang num_songs i (search_term # rest) st =
     (case try_search world md lang num_songs i search_term st of
        (Inl e, st') \<Rightarrow> phrase_loop world md lang num_songs (Suc i) rest st'
      | (Inr u, st') \<Rightarrow>
          if num_songs \<le> int (length (fst st')) then st'
          else phrase_loop world md lang num_songs (Suc i) rest st')"

text \<open>
  \<^verbatim>\<open>search_songs_by_language\<close>: the body of the outer \<^verbatim>\<open>try\<close>, then the handler,
  which turns any exception into the empty list. The result is the value returned or
  the exception raised, with the log of search calls.
\<close>

definition search_body :: "env \<Rightarrow> string \<Rightarrow> string \<Rightarrow> int \<Rightarrow> (exn + Song list) \<times> search_call list" where
  "search_body world md lang num_songs =
     (case mood_map_lookup md lang of
        Inl e \<Rightarrow> (Inl e, [])
      | Inr mood_config \<Rightarrow>
          (case phrase_loop world md lang num_songs 0 (search_terms mood_config) ([], []) of
             (songs, calls) \<Rightarrow> (Inr (slice_to songs num_songs), calls)))"

definition search_run :: "env \<Rightarrow> string \<Rightarrow> string \<Rightarrow> int \<Rightarrow> (exn + Song list) \<times> search_call list" where
  "search_run world md lang num_songs =
     (case search_body world md lang num_songs of
        (Inl e, calls) \<Rightarrow> (Inr [], calls)
      | (Inr songs, calls) \<Rightarrow> (Inr songs, calls))"

definition search_songs_by_language :: "env \<Rightarrow> string \<Rightarrow> string \<Rightarrow> int \<Rightarrow> exn + Song list" where
  "search_songs_by_language world md lang num_songs = fst (search_run world md lang num_songs)"

definition search_calls :: "env \<Rightarrow> string \<Rightarrow> string \<Rightarrow> int \<Rightarrow> search_call list" where
  "search_calls world md lang num_songs = snd (search_run world md lang num_songs)"

definition get_recommendations :: "env \<Rightarrow> string \<Rightarrow> string \<Rightarrow> int \<Rightarrow> exn + Song list" where
  "get_recommendations world md lang num_songs = search_songs_by_language world md lang num_songs"

section \<open>Well-formed track records\<close>

text \<open>
  The track records the specification calls well-formed: a non-empty name, a non-empty
  list of artists whose names are present and non-empty, a uri, and an external Spotify
  URL (a non-empty string).
\<close>

definition well_formed :: "track \<Rightarrow> bool" where
  "well_formed t =
     (case (track_name t, track_artists t, track_uri t, track_spotify_url t) of
        (Some nm, Some as, Some u, Some url) \<Rightarrow>
          nm \<noteq> [] \<and> as \<noteq> [] \<and> url \<noteq> [] \<and>
          list_all (\<lambda>a. case artist_name a of None \<Rightarrow> False | Some n \<Rightarrow> n \<noteq> []) as
      | _ \<Rightarrow> False)"

section \<open>Sample inputs\<close>

text \<open>
  A track without a \<^verbatim>\<open>preview_url\<close> key, the song it becomes, a catalog whose every
  search raises, and a catalog whose first search raises and whose later searches
  return five tracks each.
\<close>

definition sample_track :: track where
  "sample_track =
     \<lparr>track_name = Some ''Tum Hi Ho'',
      track_artists = Some [\<lparr>artist_name = Some ''Arijit Singh''\<rparr>, \<lparr>artist_name = Some ''Mithoon''\<rparr>],
      track_uri = Some ''spotify:track:1'',
      track_spotify_url = Some ''https://open.spotify.com/track/1'',
      track_preview_url = None\<rparr>"

definition failing_world :: env where
  "failing_world =
     \<lparr>spotify_search = (\<lambda>i call. Raises SearchException),
      random_randint = (\<lambda>i. 17),
      random_shuffle = (\<lambda>i tracks. rev tracks)\<rparr>"

definition flaky_world :: env where
  "flaky_world =
     \<lparr>spotify_search =
        (\<lambda>i call. if i = 0 then Raises SearchException else Items (replicate 5 sample_track)),
      random_randint = (\<lambda>i. 17),
      random_shuffle = (\<lambda>i tracks. rev tracks)\<rparr>"

definition sample_song :: "string \<Rightarrow> string \<Rightarrow> Song" where
  "sample_song md lang =
     \<lparr>title = ''Tum Hi Ho'', artist = ''Arijit Singh, Mithoon'', mood = md, language = lang,
      spotify_uri = ''spotify:track:1'', spotify_url = ''https://open.spotify.com/track/1'',
      preview_url = Some []\<rparr>"

section \<open>Facts about the classifier\<close>

lemma detect_mood_with_two:
  "detect_mood_with [(''happy'', hk), (''sad'', sk)] text =
     Inr (if (if negated (lower text) then 0 else score hk (lower text)) < score sk (lower text)
          then ''sad'' else ''happy'')"
  by (simp add: detect_mood_with_def Let_def any_values_def max_by_get_def)

lemma score_Nil: "score [] s = 0"
  by (simp add: score_def)

lemma score_Cons: "score (k # ks) s = (if is_in k s then 1 else 0) + score ks s"
  by (simp add: score_def)

lemma score_nonneg: "0 \<le> score ks s"
  by (induction ks) (simp_all add: score_Nil score_Cons)

lemma score_pos_iff: "0 < score ks s \<longleftrightarrow> (\<exists>k\<in>set ks. is_in k s)"
proof (induction ks)
  case Nil
  show ?case by (simp add: score_Nil)
next
  case (Cons k ks)
  have "0 \<le> score ks s" by (rule score_nonneg)
  with Cons show ?case by (auto simp: score_Cons)
qed

lemma score_zero_iff: "score ks s = 0 \<longleftrightarrow> (\<forall>k\<in>set ks. \<not> is_in k s)"
  using score_pos_iff [of ks s] score_nonneg [of ks s] by auto

lemma is_in_sublist: "is_in k s \<longleftrightarrow> sublist k s"
  by (induction s) (auto simp: sublist_Cons_right)

lemma is_in_subset: "is_in k s \<Longrightarrow> set k \<subseteq> set s"
  by (auto simp: is_in_sublist dest: set_mono_sublist)

lemma lower_char_not_capital_I: "lower_char c \<noteq> CHR ''I''"
proof
  assume a: "lower_char c = CHR ''I''"
  have lt: "(of_char c :: nat) < 256" by (rule nat_of_char_less_256)
  from a have "(of_char (lower_char c) :: nat) = 73" by simp
  with lt show False
    by (auto simp: lower_char_def Let_def split: if_splits)
qed

lemma capital_I_notin_lower: "CHR ''I'' \<notin> set (lower s)"
  by (induction s) (simp_all add: lower_def lower_char_not_capital_I [THEN not_sym])

lemma app_phrase_never_matches: "\<not> is_in ''I am not feeling good'' (lower s)"
proof
  assume "is_in ''I am not feeling good'' (lower s)"
  then have "set ''I am not feeling good'' \<subseteq> set (lower s)" by (rule is_in_subset)
  then have "CHR ''I'' \<in> set (lower s)" by simp
  then show False by (simp add: capital_I_notin_lower)
qed

lemma st_only_keywords: "set sad_keywords_st - set sad_keywords_app = set [''not feeling good'', ''miserable'', ''empty'', ''blue'', ''low'', ''emotional'', ''feeling down'']"
  by (simp add: sad_keywords_st_def sad_keywords_app_def) (auto)

lemma sad_scores_agree:
  assumes "\<forall>k\<in>set sad_keywords_st - set sad_keywords_app. \<not> is_in k (lower s)"
  shows "score sad_keywords_st (lower s) = score sad_keywords_app (lower s)"
proof -
  have x: "\<not> is_in k (lower s)" if "k \<in> set [''not feeling good'', ''miserable'', ''empty'', ''blue'', ''low'', ''emotional'', ''feeling down'']" for k
    using assms that unfolding st_only_keywords by blast
  show ?thesis
    using app_phrase_never_matches [of s] x
    by (simp add: sad_keywords_st_def sad_keywords_app_def score_Cons score_Nil)
qed


lemma detect_mood_app_eq:
  "detect_mood_app text =
     Inr (if (if negated (lower text) then 0 else score happy_keywords (lower text))
               < score sad_keywords_app (lower text)
          then ''sad'' else ''happy'')"
  unfolding detect_mood_app_def mood_keywords_app_def by (rule detect_mood_with_two)

lemma detect_mood_st_eq:
  "detect_mood_st text =
     Inr (if (if negated (lower text) then 0 else score happy_keywords (lower text))
               < score sad_keywords_st (lower text)
          then ''sad'' else ''happy'')"
  unfolding detect_mood_st_def mood_keywords_st_def by (rule detect_mood_with_two)

lemmas classifier_defs =
  detect_mood_app_def detect_mood_st_def detect_mood_with_def mood_keywords_app_def
  mood_keywords_st_def happy_keywords_def sad_keywords_app_def sad_keywords_st_def
  score_def negated_def lower_def lower_char_def any_values_def max_by_get_def

section \<open>Claims about the classifier\<close>

text \<open>
  C1 (as stated): a text with a happy keyword and a negation marker is classified sad,
  or happy only when the sad score is zero; in particular \<^verbatim>\<open>"I am not happy"\<close> is
  classified sad. The example fails in both files: no sad keyword occurs in
  \<^verbatim>\<open>"i am not happy"\<close>, so the default is returned.
\<close>

theorem not_happy_counterexample:
  "detect_mood_app ''I am not happy'' \<noteq> Inr ''sad'' \<and>
   detect_mood_st ''I am not happy'' \<noteq> Inr ''sad''"
  by (simp add: classifier_defs)

text \<open>
  C1 (amended): for every text whose lower-cased form contains a happy keyword and a
  negation marker, \<^verbatim>\<open>detect_mood\<close> returns \<^verbatim>\<open>"sad"\<close> when the sad score is nonzero
  and the default \<^verbatim>\<open>"happy"\<close> when it is zero, in \<^verbatim>\<open>app.py\<close> and in \<^verbatim>\<open>st.py\<close>; in
  particular, \<^verbatim>\<open>"I am not happy"\<close> has sad score zero and is classified happy.
\<close>

theorem negated_happy_text:
  assumes "\<exists>k\<in>set happy_keywords. is_in k (lower text)" and "negated (lower text)"
  shows "detect_mood_app text =
           Inr (if score sad_keywords_app (lower text) = 0 then ''happy'' else ''sad'') \<and>
         detect_mood_st text =
           Inr (if score sad_keywords_st (lower text) = 0 then ''happy'' else ''sad'') \<and>
         score sad_keywords_app (lower ''I am not happy'') = 0 \<and>
         score sad_keywords_st (lower ''I am not happy'') = 0 \<and>
         detect_mood_app ''I am not happy'' = Inr ''happy'' \<and>
         detect_mood_st ''I am not happy'' = Inr ''happy''"
proof -
  have a: "0 \<le> score sad_keywords_app (lower text)" and s: "0 \<le> score sad_keywords_st (lower text)"
    by (rule score_nonneg)+
  have 1: "detect_mood_app text =
           Inr (if score sad_keywords_app (lower text) = 0 then ''happy'' else ''sad'')"
    using assms(2) a by (simp add: detect_mood_app_eq)
  have 2: "detect_mood_st text =
           Inr (if score sad_keywords_st (lower text) = 0 then ''happy'' else ''sad'')"
    using assms(2) s by (simp add: detect_mood_st_eq)
  have 3: "score sad_keywords_app (lower ''I am not happy'') = 0"
    by (simp add: classifier_defs)
  have 4: "score sad_keywords_st (lower ''I am not happy'') = 0"
    by (simp add: classifier_defs)
  have 5: "detect_mood_app ''I am not happy'' = Inr ''happy''"
    by (simp add: classifier_defs)
  have 6: "detect_mood_st ''I am not happy'' = Inr ''happy''"
    by (simp add: classifier_defs)
  from 1 2 3 4 5 6 show ?thesis by blast
qed

theorem negated_happy_text_witness:
  "(\<exists>k\<in>set happy_keywords. is_in k (lower ''Not happy, just SAD'')) \<and>
   negated (lower ''Not happy, just SAD'') \<and>
   detect_mood_app ''Not happy, just SAD'' = Inr ''sad'' \<and>
   detect_mood_st ''Not happy, just SAD'' = Inr ''sad''"
proof -
  have h1: "\<exists>k\<in>set happy_keywords. is_in k (lower ''Not happy, just SAD'')"
    by code_simp
  have h2: "negated (lower ''Not happy, just SAD'')"
    by code_simp
  have s1: "score sad_keywords_app (lower ''Not happy, just SAD'') = 1"
    by code_simp
  have s2: "score sad_keywords_st (lower ''Not happy, just SAD'') = 1"
    by code_simp
  show ?thesis
    using negated_happy_text [OF h1 h2] h1 h2 s1 s2 by simp
qed

text \<open>
  C5: a text whose only keyword matches are happy keywords (sad score zero, happy score
  nonzero) and which has no negation marker is classified happy; a text whose only
  keyword matches are sad keywords (happy score zero, sad score nonzero) is classified
  sad. Both hold in \<^verbatim>\<open>app.py\<close> and in \<^verbatim>\<open>st.py\<close>; matches are counted in the
  lower-cased text.
\<close>

theorem single_mood_text:
  "(0 < score happy_keywords (lower text) \<and> score sad_keywords_app (lower text) = 0 \<and>
      \<not> negated (lower text) \<longrightarrow> detect_mood_app text = Inr ''happy'') \<and>
   (score happy_keywords (lower text) = 0 \<and> 0 < score sad_keywords_app (lower text)
      \<longrightarrow> detect_mood_app text = Inr ''sad'') \<and>
   (0 < score happy_keywords (lower text) \<and> score sad_keywords_st (lower text) = 0 \<and>
      \<not> negated (lower text) \<longrightarrow> detect_mood_st text = Inr ''happy'') \<and>
   (score happy_keywords (lower text) = 0 \<and> 0 < score sad_keywords_st (lower text)
      \<longrightarrow> detect_mood_st text = Inr ''sad'')"
  by (simp add: detect_mood_app_eq detect_mood_st_eq)

theorem single_mood_text_witness:
  "0 < score happy_keywords (lower ''Feeling GREAT today'') \<and>
   score sad_keywords_app (lower ''Feeling GREAT today'') = 0 \<and>
   score sad_keywords_st (lower ''Feeling GREAT today'') = 0 \<and>
   \<not> negated (lower ''Feeling GREAT today'') \<and>
   detect_mood_app ''Feeling GREAT today'' = Inr ''happy'' \<and>
   detect_mood_st ''Feeling GREAT today'' = Inr ''happy'' \<and>
   score happy_keywords (lower ''So lonely'') = 0 \<and>
   0 < score sad_keywords_app (lower ''So lonely'') \<and>
   0 < score sad_keywords_st (lower ''So lonely'') \<and>
   detect_mood_app ''So lonely'' = Inr ''sad'' \<and>
   detect_mood_st ''So lonely'' = Inr ''sad''"
proof -
  have g1: "score happy_keywords (lower ''Feeling GREAT today'') = 1" by code_simp
  have g2: "score sad_keywords_app (lower ''Feeling GREAT today'') = 0" by code_simp
  have g3: "score sad_keywords_st (lower ''Feeling GREAT today'') = 0" by code_simp
  have g4: "\<not> negated (lower ''Feeling GREAT today'')" by code_simp
  have l1: "score happy_keywords (lower ''So lonely'') = 0" by code_simp
  have l2: "score sad_keywords_app (lower ''So lonely'') = 1" by code_simp
  have l3: "score sad_keywords_st (lower ''So lonely'') = 1" by code_simp
  show ?thesis
    using single_mood_text [of "''Feeling GREAT today''"] single_mood_text [of "''So lonely''"]
      g1 g2 g3 g4 l1 l2 l3
    by simp
qed

text \<open>
  C6: a text in whose lower-cased form no happy keyword and no sad keyword occurs, such
  as \<^verbatim>\<open>"banana"\<close>, gets the default label \<^verbatim>\<open>"happy"\<close> from \<^verbatim>\<open>detect_mood\<close> of
  \<^verbatim>\<open>app.py\<close>.
\<close>

theorem no_keyword_text:
  assumes "\<forall>k\<in>set happy_keywords. \<not> is_in k (lower text)"
    and "\<forall>k\<in>set sad_keywords_app. \<not> is_in k (lower text)"
  shows "detect_mood_app text = Inr ''happy''"
proof -
  from assms(2) have "score sad_keywords_app (lower text) = 0"
    by (simp add: score_zero_iff)
  moreover from assms(1) have "score happy_keywords (lower text) = 0"
    by (simp add: score_zero_iff)
  ultimately show ?thesis
    by (simp add: detect_mood_app_eq)
qed

theorem no_keyword_text_witness:
  "\<not> (\<exists>k\<in>set happy_keywords. is_in k (lower ''banana'')) \<and>
   \<not> (\<exists>k\<in>set sad_keywords_app. is_in k (lower ''banana'')) \<and>
   detect_mood_app ''banana'' = Inr ''happy''"
proof -
  have h: "\<forall>k\<in>set happy_keywords. \<not> is_in k (lower ''banana'')" by code_simp
  have s: "\<forall>k\<in>set sad_keywords_app. \<not> is_in k (lower ''banana'')" by code_simp
  from no_keyword_text [OF h s] h s show ?thesis by blast
qed

text \<open>
  C9 (as stated): the classifiers of \<^verbatim>\<open>app.py\<close> and \<^verbatim>\<open>st.py\<close> return the same label
  on every input. They do not: \<^verbatim>\<open>"miserable"\<close> is a sad keyword of \<^verbatim>\<open>st.py\<close> only.
\<close>

theorem classifiers_differ_counterexample:
  "detect_mood_app ''miserable'' \<noteq> detect_mood_st ''miserable''"
  by (simp add: classifier_defs)

text \<open>
  C9 (amended): the two classifiers return the same label on every input whose
  lower-cased text contains none of the sad keywords that only \<^verbatim>\<open>st.py\<close> lists
  (\<^verbatim>\<open>not feeling good\<close>, \<^verbatim>\<open>miserable\<close>, \<^verbatim>\<open>empty\<close>, \<^verbatim>\<open>blue\<close>, \<^verbatim>\<open>low\<close>,
  \<^verbatim>\<open>emotional\<close>, \<^verbatim>\<open>feeling down\<close>).
\<close>

theorem classifiers_agree:
  assumes "\<forall>k\<in>set sad_keywords_st - set sad_keywords_app. \<not> is_in k (lower text)"
  shows "detect_mood_app text = detect_mood_st text"
  using sad_scores_agree [OF assms] by (simp add: detect_mood_app_eq detect_mood_st_eq)

theorem classifiers_agree_witness:
  "\<not> (\<exists>k\<in>set sad_keywords_st - set sad_keywords_app. is_in k (lower ''I feel SAD and upset'')) \<and>
   detect_mood_app ''I feel SAD and upset'' = Inr ''sad'' \<and>
   detect_mood_st ''I feel SAD and upset'' = Inr ''sad''"
proof -
  have h: "\<forall>k\<in>set sad_keywords_st - set sad_keywords_app. \<not> is_in k (lower ''I feel SAD and upset'')"
    by code_simp
  have a: "detect_mood_app ''I feel SAD and upset'' = Inr ''sad''" by code_simp
  from classifiers_agree [OF h] h a show ?thesis by auto
qed

section \<open>Facts about the aggregator\<close>

subsection \<open>Building a song\<close>

lemma create_song_labels:
  "create_song t md lang = Inr song \<Longrightarrow> mood song = md \<and> language song = lang"
  by (auto simp: create_song_def split: option.splits sum.splits)

lemma join_nonempty: "xs \<noteq> [] \<Longrightarrow> \<forall>x\<in>set xs. x \<noteq> [] \<Longrightarrow> join sep xs \<noteq> []"
  by (induction sep xs rule: join.induct) auto

lemma artist_names_well_formed:
  "list_all (\<lambda>a. case artist_name a of None \<Rightarrow> False | Some n \<Rightarrow> n \<noteq> []) as \<Longrightarrow>
   \<exists>nms. artist_names as = Inr nms \<and> length nms = length as \<and> (\<forall>n\<in>set nms. n \<noteq> [])"
  by (induction as) (auto split: option.splits)

subsection \<open>The loops\<close>

lemma track_loop_labels:
  "\<forall>s\<in>set songs. mood s = md \<and> language s = lang \<Longrightarrow>
   \<forall>s\<in>set (snd (track_loop md lang n ts songs)). mood s = md \<and> language s = lang"
proof (induction ts arbitrary: songs)
  case Nil
  then show ?case by simp
next
  case (Cons t ts)
  show ?case
  proof (cases "n \<le> int (length songs)")
    case True
    with Cons.prems show ?thesis by simp
  next
    case False
    show ?thesis
    proof (cases "create_song t md lang")
      case (Inl e)
      with False Cons.prems show ?thesis by simp
    next
      case (Inr song)
      then have "mood song = md \<and> language song = lang" by (rule create_song_labels)
      with Cons.prems have "\<forall>s\<in>set (songs @ [song]). mood s = md \<and> language s = lang"
        by auto
      then have "\<forall>s\<in>set (snd (track_loop md lang n ts (songs @ [song]))). mood s = md \<and> language s = lang"
        by (rule Cons.IH)
      with False Inr show ?thesis by simp
    qed
  qed
qed

lemma try_search_songs_labels:
  assumes "\<forall>s\<in>set (fst st). mood s = md \<and> language s = lang"
  shows "\<forall>s\<in>set (fst (snd (try_search world md lang n i q st))). mood s = md \<and> language s = lang"
proof (cases "spotify_search world i \<lparr>call_q = q, call_market = market_for lang, call_limit = 10,
       call_offset = random_randint world i\<rparr>")
  case (Items tracks)
  have "\<forall>s\<in>set (snd (track_loop md lang n (random_shuffle world i tracks) (fst st))).
          mood s = md \<and> language s = lang"
    using assms by (rule track_loop_labels)
  with Items show ?thesis
    by (simp add: try_search_def Let_def split: prod.splits)
qed (use assms in \<open>simp_all add: try_search_def Let_def\<close>)

lemma try_search_raises:
  "spotify_search world i \<lparr>call_q = q, call_market = market_for lang, call_limit = 10,
       call_offset = random_randint world i\<rparr> = Raises e \<Longrightarrow>
   try_search world md lang n i q st =
     (Inl e, (fst st, snd st @ [\<lparr>call_q = q, call_market = market_for lang, call_limit = 10,
       call_offset = random_randint world i\<rparr>]))"
  by (simp add: try_search_def Let_def)

lemma try_search_calls:
  "snd (snd (try_search world md lang n i q st)) =
     snd st @ [\<lparr>call_q = q, call_market = market_for lang, call_limit = 10,
       call_offset = random_randint world i\<rparr>]"
  by (simp add: try_search_def Let_def split: search_result.splits prod.splits)

lemma phrase_loop_labels:
  "\<forall>s\<in>set (fst st). mood s = md \<and> language s = lang \<Longrightarrow>
   \<forall>s\<in>set (fst (phrase_loop world md lang n i terms st)). mood s = md \<and> language s = lang"
proof (induction terms arbitrary: i st)
  case Nil
  then show ?case by simp
next
  case (Cons q rest)
  obtain r st' where ts: "try_search world md lang n i q st = (r, st')"
    by (cases "try_search world md lang n i q st")
  from try_search_songs_labels [OF Cons.prems, of world n i q] ts
  have st': "\<forall>s\<in>set (fst st'). mood s = md \<and> language s = lang" by simp
  have next_ok: "\<forall>s\<in>set (fst (phrase_loop world md lang n (Suc i) rest st')). mood s = md \<and> language s = lang"
    using st' by (rule Cons.IH)
  show ?case
    using ts st' next_ok by (cases r) (simp_all)
qed

lemma phrase_loop_all_raise:
  assumes "\<forall>i c. \<exists>e. spotify_search world i c = Raises e"
  shows "fst (phrase_loop world md lang n i terms st) = fst st"
proof (induction terms arbitrary: i st)
  case Nil
  show ?case by simp
next
  case (Cons q rest)
  let ?c = "\<lparr>call_q = q, call_market = market_for lang, call_limit = 10,
       call_offset = random_randint world i\<rparr>"
  from assms obtain e where "spotify_search world i ?c = Raises e" by blast
  then have "try_search world md lang n i q st = (Inl e, (fst st, snd st @ [?c]))"
    by (rule try_search_raises)
  then show ?case by (simp add: Cons.IH)
qed

lemma phrase_loop_calls:
  "\<exists>new. snd (phrase_loop world md lang n i terms st) = snd st @ new \<and>
     prefix (map call_q new) terms \<and>
     map call_market new = replicate (length new) (market_for lang) \<and>
     map call_limit new = replicate (length new) 10"
proof (induction terms arbitrary: i st)
  case Nil
  show ?case by simp
next
  case (Cons q rest)
  let ?c = "\<lparr>call_q = q, call_market = market_for lang, call_limit = 10,
       call_offset = random_randint world i\<rparr>"
  obtain r st' where ts: "try_search world md lang n i q st = (r, st')"
    by (cases "try_search world md lang n i q st")
  with try_search_calls [of world md lang n i q st] have c: "snd st' = snd st @ [?c]" by simp
  from Cons.IH [of "Suc i" st'] obtain new where
    new: "snd (phrase_loop world md lang n (Suc i) rest st') = snd st' @ new"
      "prefix (map call_q new) rest"
      "map call_market new = replicate (length new) (market_for lang)"
      "map call_limit new = replicate (length new) 10"
    by blast
  have stop: "\<exists>new. snd st' = snd st @ new \<and> prefix (map call_q new) (q # rest) \<and>
     map call_market new = replicate (length new) (market_for lang) \<and>
     map call_limit new = replicate (length new) 10"
    using c by (intro exI [of _ "[?c]"]) simp
  have go: "\<exists>new. snd (phrase_loop world md lang n (Suc i) rest st') = snd st @ new \<and>
     prefix (map call_q new) (q # rest) \<and>
     map call_market new = replicate (length new) (market_for lang) \<and>
     map call_limit new = replicate (length new) 10"
    using c new by (intro exI [of _ "?c # new"]) simp
  show ?case
    using ts stop go by (cases r) (simp_all)
qed


lemma slice_to_length: "0 \<le> n \<Longrightarrow> int (length (slice_to xs n)) \<le> n"
  by (simp add: slice_to_def)

lemma slice_to_subset: "set (slice_to xs n) \<subseteq> set xs"
  by (auto simp: slice_to_def dest: in_set_takeD)

lemma search_run_known:
  "mood_map_lookup md lang = Inr cfg \<Longrightarrow>
   search_run world md lang n =
     (Inr (slice_to (fst (phrase_loop world md lang n 0 (search_terms cfg) ([], []))) n),
      snd (phrase_loop world md lang n 0 (search_terms cfg) ([], [])))"
  by (simp add: search_run_def search_body_def split: prod.splits)

lemma search_run_unknown:
  "mood_map_lookup md lang = Inl e \<Longrightarrow> search_run world md lang n = (Inr [], [])"
  by (simp add: search_run_def search_body_def)

lemma search_returns: "\<exists>songs. search_songs_by_language world md lang n = Inr songs"
  by (cases "mood_map_lookup md lang")
     (simp_all add: search_songs_by_language_def search_run_known search_run_unknown)

lemma mood_map_lookup_unknown:
  "md \<notin> {''happy'', ''sad''} \<or> lang \<notin> {''english'', ''hindi''} \<Longrightarrow>
   mood_map_lookup md lang = Inl KeyError"
  by (auto simp: mood_map_lookup_def mood_map_def getitem_def)

lemma mood_map_lookup_happy_english:
  "mood_map_lookup ''happy'' ''english'' =
     Inr \<lparr>search_terms = [''happy'', ''upbeat'', ''dance'', ''party''],
          seed_genres = [''pop'', ''dance'']\<rparr>"
  by (simp add: mood_map_lookup_def mood_map_def getitem_def)

lemma mood_map_lookup_sad_hindi:
  "mood_map_lookup ''sad'' ''hindi'' =
     Inr \<lparr>search_terms = [''bollywood sad'', ''hindi emotional'', ''bollywood classical'',
                          ''dard bhare gane''],
          seed_genres = [''acoustic'', ''ghazal'']\<rparr>"
  by (simp add: mood_map_lookup_def mood_map_def getitem_def)

lemma search_calls_plan:
  "mood_map_lookup md lang = Inr cfg \<Longrightarrow>
   prefix (map call_q (search_calls world md lang n)) (search_terms cfg) \<and>
   map call_market (search_calls world md lang n) =
     replicate (length (search_calls world md lang n)) (market_for lang)"
  using phrase_loop_calls [of world md lang n 0 "search_terms cfg" "([], [])"]
  by (auto simp: search_calls_def search_run_known)

lemma search_calls_market:
  "map call_market (search_calls world md lang n) =
     replicate (length (search_calls world md lang n)) (market_for lang)"
proof (cases "mood_map_lookup md lang")
  case (Inl e)
  then show ?thesis by (simp add: search_calls_def search_run_unknown)
next
  case (Inr cfg)
  then show ?thesis by (simp add: search_calls_plan)
qed

lemma track_loop_no_room:
  "n \<le> int (length songs) \<Longrightarrow> track_loop md lang n ts songs = (Inr (), songs)"
  by (cases ts) simp_all

lemma try_search_no_room:
  "n \<le> int (length (fst st)) \<Longrightarrow> fst (snd (try_search world md lang n i q st)) = fst st"
  by (simp add: try_search_def Let_def track_loop_no_room split: search_result.splits)

lemma phrase_loop_no_room:
  "n \<le> int (length (fst st)) \<Longrightarrow> fst (phrase_loop world md lang n i terms st) = fst st"
proof (induction terms arbitrary: i st)
  case Nil
  show ?case by simp
next
  case (Cons q rest)
  obtain r st' where ts: "try_search world md lang n i q st = (r, st')"
    by (cases "try_search world md lang n i q st")
  with try_search_no_room [OF Cons.prems, of world md lang i q] have same: "fst st' = fst st"
    by simp
  with Cons.prems have "n \<le> int (length (fst st'))" by simp
  then have "fst (phrase_loop world md lang n (Suc i) rest st') = fst st'"
    by (rule Cons.IH)
  with ts same show ?case by (cases r) simp_all
qed

text \<open>A count that is zero or negative gives the empty list.\<close>

lemma no_songs_for_nonpositive_count:
  "n \<le> 0 \<Longrightarrow> search_songs_by_language world md lang n = Inr []"
proof (cases "mood_map_lookup md lang")
  case (Inl e)
  then show ?thesis by (simp add: search_songs_by_language_def search_run_unknown)
next
  case (Inr cfg)
  assume "n \<le> 0"
  then have "fst (phrase_loop world md lang n 0 (search_terms cfg) ([], [])) = []"
    using phrase_loop_no_room [of n "([], [])" world md lang 0 "search_terms cfg"] by simp
  with Inr show ?thesis
    by (simp add: search_songs_by_language_def search_run_known slice_to_def)
qed

section \<open>Claims about the aggregator\<close>

text \<open>
  C2: for every mood, language and requested count \<open>n\<close> (a count is not negative) and
  whatever the catalog answers, \<^verbatim>\<open>search_songs_by_language\<close> and
  \<^verbatim>\<open>get_recommendations\<close> return a list of at most \<open>n\<close> songs.
\<close>

theorem result_length_bounded:
  assumes "0 \<le> n"
  shows "\<exists>songs. search_songs_by_language world md lang n = Inr songs \<and>
           get_recommendations world md lang n = Inr songs \<and> int (length songs) \<le> n"
proof (cases "mood_map_lookup md lang")
  case (Inl e)
  with assms show ?thesis
    by (simp add: get_recommendations_def search_songs_by_language_def search_run_unknown)
next
  case (Inr cfg)
  with assms show ?thesis
    by (simp add: get_recommendations_def search_songs_by_language_def search_run_known
        slice_to_length)
qed

theorem result_length_bounded_witness:
  "(0::int) \<le> 2 \<and>
   search_songs_by_language flaky_world ''happy'' ''english'' 2 =
     Inr [sample_song ''happy'' ''english'', sample_song ''happy'' ''english''] \<and>
   get_recommendations flaky_world ''happy'' ''english'' 2 =
     Inr [sample_song ''happy'' ''english'', sample_song ''happy'' ''english'']"
proof -
  have n: "(0::int) \<le> 2" by simp
  have r: "search_songs_by_language flaky_world ''happy'' ''english'' 2 =
     Inr [sample_song ''happy'' ''english'', sample_song ''happy'' ''english'']"
    by code_simp
  from result_length_bounded [OF n, of flaky_world "''happy''" "''english''"] n r
  show ?thesis by auto
qed

text \<open>
  C3: \<^verbatim>\<open>search_songs_by_language\<close> always returns a list and never raises; when every
  search call raises it returns the empty list; and a phrase whose search raises adds
  no song, the loop going on with the next phrase from the same list of songs.
\<close>

theorem search_failures_swallowed:
  "(\<exists>songs. search_songs_by_language world md lang n = Inr songs) \<and>
   ((\<forall>i c. \<exists>e. spotify_search world i c = Raises e) \<longrightarrow>
      search_songs_by_language world md lang n = Inr []) \<and>
   (\<forall>e. spotify_search world i \<lparr>call_q = q, call_market = market_for lang, call_limit = 10,
          call_offset = random_randint world i\<rparr> = Raises e \<longrightarrow>
      phrase_loop world md lang n i (q # rest) (songs, calls) =
        phrase_loop world md lang n (Suc i) rest
          (songs, calls @ [\<lparr>call_q = q, call_market = market_for lang, call_limit = 10,
                            call_offset = random_randint world i\<rparr>]))"
proof (intro conjI allI impI)
  show "\<exists>songs. search_songs_by_language world md lang n = Inr songs"
    by (rule search_returns)
next
  assume all: "\<forall>i c. \<exists>e. spotify_search world i c = Raises e"
  show "search_songs_by_language world md lang n = Inr []"
  proof (cases "mood_map_lookup md lang")
    case (Inl e)
    then show ?thesis by (simp add: search_songs_by_language_def search_run_unknown)
  next
    case (Inr cfg)
    have "fst (phrase_loop world md lang n 0 (search_terms cfg) ([], [])) = []"
      using phrase_loop_all_raise [OF all, of md lang n 0 "search_terms cfg" "([], [])"] by simp
    with Inr show ?thesis
      by (simp add: search_songs_by_language_def search_run_known slice_to_def)
  qed
next
  fix e
  assume "spotify_search world i \<lparr>call_q = q, call_market = market_for lang, call_limit = 10,
          call_offset = random_randint world i\<rparr> = Raises e"
  then show "phrase_loop world md lang n i (q # rest) (songs, calls) =
        phrase_loop world md lang n (Suc i) rest
          (songs, calls @ [\<lparr>call_q = q, call_market = market_for lang, call_limit = 10,
                            call_offset = random_randint world i\<rparr>])"
    by (simp add: try_search_raises)
qed

theorem search_failures_swallowed_witness:
  "(\<forall>i c. \<exists>e. spotify_search failing_world i c = Raises e) \<and>
   search_songs_by_language failing_world ''sad'' ''hindi'' 3 = Inr [] \<and>
   length (search_calls failing_world ''sad'' ''hindi'' 3) = 4 \<and>
   spotify_search flaky_world 0
     \<lparr>call_q = ''happy'', call_market = market_for ''english'', call_limit = 10,
      call_offset = random_randint flaky_world 0\<rparr> = Raises SearchException \<and>
   phrase_loop flaky_world ''happy'' ''english'' 2 0 [''happy'', ''upbeat''] ([], []) =
     phrase_loop flaky_world ''happy'' ''english'' 2 1 [''upbeat'']
       ([], [\<lparr>call_q = ''happy'', call_market = market_for ''english'', call_limit = 10,
              call_offset = random_randint flaky_world 0\<rparr>]) \<and>
   search_songs_by_language flaky_world ''happy'' ''english'' 2 =
     Inr [sample_song ''happy'' ''english'', sample_song ''happy'' ''english'']"
proof -
  have h: "\<forall>i c. \<exists>e. spotify_search failing_world i c = Raises e"
    by (simp add: failing_world_def)
  have c: "length (search_calls failing_world ''sad'' ''hindi'' 3) = 4"
    by code_simp
  have f: "spotify_search flaky_world 0
     \<lparr>call_q = ''happy'', call_market = market_for ''english'', call_limit = 10,
      call_offset = random_randint flaky_world 0\<rparr> = Raises SearchException"
    by (simp add: flaky_world_def)
  have r: "search_songs_by_language flaky_world ''happy'' ''english'' 2 =
     Inr [sample_song ''happy'' ''english'', sample_song ''happy'' ''english'']"
    by code_simp
  from search_failures_swallowed [of failing_world "''sad''" "''hindi''" 3]
  have a: "search_songs_by_language failing_world ''sad'' ''hindi'' 3 = Inr []"
    using h by blast
  from search_failures_swallowed
    [of flaky_world "''happy''" "''english''" 2 0 "''happy''" "[''upbeat'']" "[]" "[]"]
  have s: "phrase_loop flaky_world ''happy'' ''english'' 2 0 [''happy'', ''upbeat''] ([], []) =
     phrase_loop flaky_world ''happy'' ''english'' 2 1 [''upbeat'']
       ([], [\<lparr>call_q = ''happy'', call_market = market_for ''english'', call_limit = 10,
              call_offset = random_randint flaky_world 0\<rparr>])"
    using f by simp
  from h a c f s r show ?thesis by blast
qed

text \<open>
  C4: the plan for (happy, english) is the four configured terms with market
  \<^verbatim>\<open>"US"\<close> and the plan for (sad, hindi) is the four configured terms with market
  \<^verbatim>\<open>"IN"\<close>; the queries of the calls made are an initial part of the plan, in order,
  and every call of the aggregator carries market \<^verbatim>\<open>"IN"\<close> when the language is
  \<^verbatim>\<open>"hindi"\<close> and \<^verbatim>\<open>"US"\<close> otherwise.
\<close>

theorem query_plan:
  "(\<exists>cfg. mood_map_lookup ''happy'' ''english'' = Inr cfg \<and>
      search_terms cfg = [''happy'', ''upbeat'', ''dance'', ''party''] \<and>
      length (search_terms cfg) = 4 \<and>
      prefix (map call_q (search_calls world ''happy'' ''english'' n)) (search_terms cfg)) \<and>
   market_for ''english'' = ''US'' \<and>
   (\<exists>cfg. mood_map_lookup ''sad'' ''hindi'' = Inr cfg \<and>
      search_terms cfg = [''bollywood sad'', ''hindi emotional'', ''bollywood classical'',
                          ''dard bhare gane''] \<and>
      length (search_terms cfg) = 4 \<and>
      prefix (map call_q (search_calls world ''sad'' ''hindi'' n)) (search_terms cfg)) \<and>
   market_for ''hindi'' = ''IN'' \<and>
   map call_market (search_calls world md lang n) =
     replicate (length (search_calls world md lang n)) (if lang = ''hindi'' then ''IN'' else ''US'')"
proof -
  have 1: "\<exists>cfg. mood_map_lookup ''happy'' ''english'' = Inr cfg \<and>
      search_terms cfg = [''happy'', ''upbeat'', ''dance'', ''party''] \<and>
      length (search_terms cfg) = 4 \<and>
      prefix (map call_q (search_calls world ''happy'' ''english'' n)) (search_terms cfg)"
    using search_calls_plan [OF mood_map_lookup_happy_english, of world n]
    by (simp add: mood_map_lookup_happy_english)
  have 2: "\<exists>cfg. mood_map_lookup ''sad'' ''hindi'' = Inr cfg \<and>
      search_terms cfg = [''bollywood sad'', ''hindi emotional'', ''bollywood classical'',
                          ''dard bhare gane''] \<and>
      length (search_terms cfg) = 4 \<and>
      prefix (map call_q (search_calls world ''sad'' ''hindi'' n)) (search_terms cfg)"
    using search_calls_plan [OF mood_map_lookup_sad_hindi, of world n]
    by (simp add: mood_map_lookup_sad_hindi)
  have 3: "market_for ''english'' = ''US''" "market_for ''hindi'' = ''IN''"
    by (simp_all add: market_for_def)
  have 4: "map call_market (search_calls world md lang n) =
     replicate (length (search_calls world md lang n)) (if lang = ''hindi'' then ''IN'' else ''US'')"
    using search_calls_market [of world md lang n] by (simp add: market_for_def)
  from 1 2 3 4 show ?thesis by blast
qed

theorem query_plan_witness:
  "map call_q (search_calls failing_world ''sad'' ''hindi'' 3) =
     [''bollywood sad'', ''hindi emotional'', ''bollywood classical'', ''dard bhare gane''] \<and>
   map call_market (search_calls failing_world ''sad'' ''hindi'' 3) = [''IN'', ''IN'', ''IN'', ''IN''] \<and>
   map call_q (search_calls flaky_world ''happy'' ''english'' 2) = [''happy'', ''upbeat''] \<and>
   map call_market (search_calls flaky_world ''happy'' ''english'' 2) = [''US'', ''US'']"
proof -
  have a: "map call_q (search_calls failing_world ''sad'' ''hindi'' 3) =
     [''bollywood sad'', ''hindi emotional'', ''bollywood classical'', ''dard bhare gane'']"
    by code_simp
  have b: "map call_q (search_calls flaky_world ''happy'' ''english'' 2) = [''happy'', ''upbeat'']"
    by code_simp
  from a have la: "length (search_calls failing_world ''sad'' ''hindi'' 3) = 4"
    using length_map [of call_q "search_calls failing_world ''sad'' ''hindi'' 3"] by simp
  from b have lb: "length (search_calls flaky_world ''happy'' ''english'' 2) = 2"
    using length_map [of call_q "search_calls flaky_world ''happy'' ''english'' 2"] by simp
  from query_plan [of failing_world 3 "''sad''" "''hindi''"]
  have ma: "map call_market (search_calls failing_world ''sad'' ''hindi'' 3) = [''IN'', ''IN'', ''IN'', ''IN'']"
    using la by (simp add: numeral_eq_Suc)
  from query_plan [of flaky_world 2 "''happy''" "''english''"]
  have mb: "map call_market (search_calls flaky_world ''happy'' ''english'' 2) = [''US'', ''US'']"
    using lb by (simp add: numeral_eq_Suc)
  from a b ma mb show ?thesis by simp
qed

text \<open>
  C7: for a mood outside happy and sad, or a language outside english and hindi, the
  table lookup raises \<^verbatim>\<open>KeyError\<close>, the handler turns it into the empty list, and no
  search call is made.
\<close>

theorem unknown_mood_or_language:
  assumes "md \<notin> {''happy'', ''sad''} \<or> lang \<notin> {''english'', ''hindi''}"
  shows "fst (search_body world md lang n) = Inl KeyError \<and>
         search_songs_by_language world md lang n = Inr [] \<and>
         get_recommendations world md lang n = Inr [] \<and>
         search_calls world md lang n = []"
proof -
  from assms have "mood_map_lookup md lang = Inl KeyError"
    by (rule mood_map_lookup_unknown)
  then show ?thesis
    by (simp add: search_body_def get_recommendations_def search_songs_by_language_def
        search_calls_def search_run_unknown)
qed

theorem unknown_mood_or_language_witness:
  "''angry'' \<notin> {''happy'', ''sad''} \<and>
   search_songs_by_language flaky_world ''angry'' ''english'' 3 = Inr [] \<and>
   search_calls flaky_world ''angry'' ''english'' 3 = [] \<and>
   ''tamil'' \<notin> {''english'', ''hindi''} \<and>
   search_songs_by_language flaky_world ''happy'' ''tamil'' 3 = Inr [] \<and>
   search_calls flaky_world ''happy'' ''tamil'' 3 = []"
proof -
  have a: "''angry'' \<notin> {''happy'', ''sad''} \<or> ''english'' \<notin> {''english'', ''hindi''}" by simp
  have b: "''happy'' \<notin> {''happy'', ''sad''} \<or> ''tamil'' \<notin> {''english'', ''hindi''}" by simp
  from unknown_mood_or_language [OF a, of flaky_world 3]
    unknown_mood_or_language [OF b, of flaky_world 3]
  show ?thesis by simp
qed

text \<open>
  C8: the song built from a well-formed track has a non-empty title, a non-empty
  artist and a non-empty web URL; its preview URL is the empty string when the track
  has no \<^verbatim>\<open>preview_url\<close> key.
\<close>

theorem well_formed_song:
  assumes "well_formed t"
  shows "\<exists>song. create_song t md lang = Inr song \<and> title song \<noteq> [] \<and> artist song \<noteq> [] \<and>
           spotify_url song \<noteq> [] \<and>
           (track_preview_url t = None \<longrightarrow> preview_url song = Some [])"
proof -
  from assms obtain nm as u url where
    f: "track_name t = Some nm" "track_artists t = Some as" "track_uri t = Some u"
       "track_spotify_url t = Some url"
    and ne: "nm \<noteq> []" "as \<noteq> []" "url \<noteq> []"
    and names: "list_all (\<lambda>a. case artist_name a of None \<Rightarrow> False | Some n \<Rightarrow> n \<noteq> []) as"
    by (auto simp: well_formed_def split: option.splits)
  from artist_names_well_formed [OF names] obtain nms where
    nms: "artist_names as = Inr nms" "length nms = length as" "\<forall>n\<in>set nms. n \<noteq> []"
    by blast
  from nms(2) ne(2) have "nms \<noteq> []" by auto
  then have "join '', '' nms \<noteq> []" using nms(3) by (rule join_nonempty)
  with f ne nms(1) show ?thesis
    by (simp add: create_song_def)
qed

theorem well_formed_song_witness:
  "well_formed sample_track \<and> track_preview_url sample_track = None \<and>
   create_song sample_track ''sad'' ''hindi'' = Inr (sample_song ''sad'' ''hindi'') \<and>
   preview_url (sample_song ''sad'' ''hindi'') = Some []"
proof -
  have w: "well_formed sample_track"
    by (simp add: well_formed_def sample_track_def)
  have c: "create_song sample_track ''sad'' ''hindi'' = Inr (sample_song ''sad'' ''hindi'')"
    by (simp add: create_song_def sample_track_def sample_song_def)
  from well_formed_song [OF w, of "''sad''" "''hindi''"] w c
  show ?thesis by (simp add: sample_track_def sample_song_def)
qed

text \<open>
  C10: every song returned by \<^verbatim>\<open>get_recommendations\<close> carries the mood and the
  language it was called with, whatever the catalog answers.
\<close>

theorem songs_carry_arguments:
  "\<exists>songs. get_recommendations world md lang n = Inr songs \<and>
     (\<forall>s\<in>set songs. mood s = md \<and> language s = lang)"
proof (cases "mood_map_lookup md lang")
  case (Inl e)
  then show ?thesis
    by (simp add: get_recommendations_def search_songs_by_language_def search_run_unknown)
next
  case (Inr cfg)
  have "\<forall>s\<in>set (fst (phrase_loop world md lang n 0 (search_terms cfg) ([], []))).
          mood s = md \<and> language s = lang"
    by (rule phrase_loop_labels) simp
  with slice_to_subset [of "fst (phrase_loop world md lang n 0 (search_terms cfg) ([], []))" n]
  have "\<forall>s\<in>set (slice_to (fst (phrase_loop world md lang n 0 (search_terms cfg) ([], []))) n).
          mood s = md \<and> language s = lang"
    by blast
  with Inr show ?thesis
    by (simp add: get_recommendations_def search_songs_by_language_def search_run_known)
qed

theorem songs_carry_arguments_witness:
  "get_recommendations flaky_world ''sad'' ''hindi'' 3 =
     Inr [sample_song ''sad'' ''hindi'', sample_song ''sad'' ''hindi'', sample_song ''sad'' ''hindi''] \<and>
   map mood [sample_song ''sad'' ''hindi'', sample_song ''sad'' ''hindi'', sample_song ''sad'' ''hindi'']
     = [''sad'', ''sad'', ''sad''] \<and>
   map language [sample_song ''sad'' ''hindi'', sample_song ''sad'' ''hindi'', sample_song ''sad'' ''hindi'']
     = [''hindi'', ''hindi'', ''hindi'']"
proof -
  have r: "get_recommendations flaky_world ''sad'' ''hindi'' 3 =
     Inr [sample_song ''sad'' ''hindi'', sample_song ''sad'' ''hindi'', sample_song ''sad'' ''hindi'']"
    by code_simp
  from songs_carry_arguments [of flaky_world "''sad''" "''hindi''" 3] r
  show ?thesis by simp
qed

end
